theory Spec2Isabelle
  imports Complex_Main "HOL-Library.Char_ord" "HOL-Library.List_Lexorder"
begin

section \<open>The country-info service: data model\<close>

text \<open>
  The service answers three HTTP endpoints by calling two upstream providers. Go strings
  are byte sequences and are modelled as \<open>string\<close> (a list of 8-bit characters):
  \<open>len\<close> is \<open>length\<close>, \<open>==\<close> is equality and \<open>sort.Strings\<close> orders them bytewise
  (the lexicographic order on lists over the byte order on \<open>char\<close>).
  A value of type \<open>float64\<close> is only ever copied by the program, never computed with, so
  it is the type parameter \<open>'f\<close>; an \<open>int64\<close> that is only copied (the population, the
  uptime) is an \<open>int\<close>. A Go map that is only looked up or copied is a map
  \<open>string \<rightharpoonup> 'v\<close>; the currency map, whose keys the program enumerates, is an
  association list of its entries.
\<close>

definition version :: string where
  "version = ''v1''"

definition countriesBaseURL :: string where
  "countriesBaseURL = ''http://129.241.150.113:8080/v3.1''"

definition currencyBaseURL :: string where
  "currencyBaseURL = ''http://129.241.150.113:9090/currency''"

abbreviation StatusOK :: int where "StatusOK \<equiv> 200"
abbreviation StatusBadRequest :: int where "StatusBadRequest \<equiv> 400"
abbreviation StatusNotFound :: int where "StatusNotFound \<equiv> 404"
abbreviation StatusMethodNotAllowed :: int where "StatusMethodNotAllowed \<equiv> 405"
abbreviation StatusBadGateway :: int where "StatusBadGateway \<equiv> 502"

abbreviation MethodGet :: string where "MethodGet \<equiv> ''GET''"

record errResp =
  Error :: string

record statusResponse =
  RestCountriesAPI :: int
  CurrenciesAPI :: int
  Version :: string
  Uptime :: int

record countriesName =
  Common :: string

record countriesFlags =
  PNG :: string
  SVG :: string

record 'f countriesCountry =
  Name :: countriesName
  Continents :: "string list"
  Population :: int
  Area :: 'f
  Languages :: "string \<rightharpoonup> string"
  Borders :: "string list"
  Flags :: countriesFlags
  Capital :: "string list"
  Currencies :: "(string \<times> string) list"

record 'f infoResponse =
  info_name :: string
  info_continents :: "string list"
  info_population :: int
  info_area :: 'f
  info_languages :: "string \<rightharpoonup> string"
  info_borders :: "string list"
  info_flag :: string
  info_capital :: string

record 'f upstreamCurrencyResponse =
  Result :: string
  Rates :: "string \<rightharpoonup> 'f"

record 'f exchangeResponse =
  Country :: string
  BaseCurrency :: string
  ExchangeRates :: "string \<rightharpoonup> 'f"

subsection \<open>Requests and responses of the service\<close>

record request =
  Method :: string
  Path :: string

datatype 'f payload =
    ErrBody errResp
  | StatusBody statusResponse
  | InfoBody "'f infoResponse"
  | ExchangeBody "'f exchangeResponse"

record 'f response =
  contentType :: string
  status :: int
  payload :: "'f payload"

definition writeJSON :: "int \<Rightarrow> 'f payload \<Rightarrow> 'f response" where
  "writeJSON st v = \<lparr>contentType = ''application/json'', status = st, payload = v\<rparr>"

definition writeJSONError :: "int \<Rightarrow> string \<Rightarrow> 'f response" where
  "writeJSONError st msg = writeJSON st (ErrBody \<lparr>Error = msg\<rparr>)"

subsection \<open>The upstream providers\<close>

text \<open>
  The body of an upstream answer is described by what \<open>encoding/json\<close> makes of it, which
  is all the program ever asks about a body:
  \<^item> \<open>NotJSON\<close>: the body does not start with a well-formed JSON value;
  \<^item> \<open>JSONNull\<close>: the value \<open>null\<close>;
  \<^item> \<open>JSONScalar\<close>: a string, a number or a boolean;
  \<^item> \<open>JSONArray r\<close>: an array; \<open>r\<close> is the slice that unmarshalling it into
    \<open>[]countriesCountry\<close> yields, or \<open>None\<close> when an element does not unmarshal
    into a \<open>countriesCountry\<close> (it is no object, or a field has the wrong type);
  \<^item> \<open>JSONObject r\<close>: a single object; \<open>r\<close> is the record that decoding it into an
    \<open>upstreamCurrencyResponse\<close> yields, or \<open>None\<close> when a field has the wrong type. The
    program never decodes an object into anything else.
\<close>

datatype 'f body =
    NotJSON
  | JSONNull
  | JSONScalar
  | JSONArray "'f countriesCountry list option"
  | JSONObject "'f upstreamCurrencyResponse option"

text \<open>
  \<open>httpClient.Get\<close> either fails (\<open>err != nil\<close>: the request could not be built or
  sent, or the 5 s timeout ran out) or delivers a status code and a body.
\<close>

datatype 'f http_result = TransportError | Response int "'f body"

text \<open>
  The trace lists the upstream calls a handler has issued so far, oldest first, each with
  the answer it got. An upstream is any function of the trace so far and the URL asked
  for, so the same URL may be answered differently on a later call.
\<close>

type_synonym 'f trace = "(string \<times> 'f http_result) list"

type_synonym 'f upstream = "'f trace \<Rightarrow> string \<Rightarrow> 'f http_result"

definition httpClient_Get :: "'f upstream \<Rightarrow> 'f trace \<Rightarrow> string \<Rightarrow> 'f http_result \<times> 'f trace" where
  "httpClient_Get up tr url = (let r = up tr url in (r, tr @ [(url, r)]))"

datatype go_error = TransportFailure | DecodeFailure | UnexpectedShape

subsection \<open>The library functions the program calls\<close>

text \<open>
  \<open>strings.TrimSpace\<close>, \<open>strings.ToLower\<close> and \<open>strings.ToUpper\<close> work on the Unicode
  code points of a string. The program is modelled over any three functions in their
  place, so that what is proved of it holds of the Go functions on every byte string.
\<close>

record strings_pkg =
  TrimSpace :: "string \<Rightarrow> string"
  ToLower :: "string \<Rightarrow> string"
  ToUpper :: "string \<Rightarrow> string"

text \<open>
  On ASCII text, which is what country and currency codes are, the three functions are
  these: \<open>TrimSpace\<close> cuts the six ASCII white-space bytes off both ends, and the other
  two move the letters between the two ranges. The examples run the program with them.
\<close>

definition asciiSpace :: "char \<Rightarrow> bool" where
  "asciiSpace c = (c \<in> {CHR 0x09, CHR 0x0A, CHR 0x0B, CHR 0x0C, CHR 0x0D, CHR 0x20})"

definition ascii_TrimSpace :: "string \<Rightarrow> string" where
  "ascii_TrimSpace s = rev (dropWhile asciiSpace (rev (dropWhile asciiSpace s)))"

definition lowerByte :: "char \<Rightarrow> char" where
  "lowerByte c = (if CHR ''A'' \<le> c \<and> c \<le> CHR ''Z'' then char_of (of_char c + (32::nat)) else c)"

definition upperByte :: "char \<Rightarrow> char" where
  "upperByte c = (if CHR ''a'' \<le> c \<and> c \<le> CHR ''z'' then char_of (of_char c - (32::nat)) else c)"

definition ascii_ToLower :: "string \<Rightarrow> string" where
  "ascii_ToLower s = map lowerByte s"

definition ascii_ToUpper :: "string \<Rightarrow> string" where
  "ascii_ToUpper s = map upperByte s"

definition ascii_strings :: strings_pkg where
  "ascii_strings =
     \<lparr>TrimSpace = ascii_TrimSpace, ToLower = ascii_ToLower, ToUpper = ascii_ToUpper\<rparr>"

text \<open>\<open>strings.TrimPrefix\<close> works on bytes.\<close>

definition TrimPrefix :: "string \<Rightarrow> string \<Rightarrow> string" where
  "TrimPrefix s p = (if take (length p) s = p then drop (length p) s else s)"

text \<open>
  \<open>json.NewDecoder(body).Decode(&raw)\<close> with \<open>raw\<close> a \<open>json.RawMessage\<close> fails exactly
  when the body is no JSON value.
\<close>

fun Decode_RawMessage :: "'f body \<Rightarrow> 'f body option" where
  "Decode_RawMessage NotJSON = None"
| "Decode_RawMessage b = Some b"

text \<open>
  \<open>json.Unmarshal(raw, &arr)\<close> with \<open>arr\<close> a \<open>[]countriesCountry\<close>: an array gives its
  elements, \<open>null\<close> gives the nil slice without an error, every other value (an object
  among them) is a type error.
\<close>

fun Unmarshal_countries :: "'f body \<Rightarrow> 'f countriesCountry list option" where
  "Unmarshal_countries (JSONArray r) = r"
| "Unmarshal_countries JSONNull = Some []"
| "Unmarshal_countries _ = None"

text \<open>
  \<open>json.NewDecoder(body).Decode(&out)\<close> with \<open>out\<close> an \<open>upstreamCurrencyResponse\<close>: an
  object fills the struct, \<open>null\<close> leaves the zero value without an error, everything
  else is an error.
\<close>

fun Decode_upstreamCurrencyResponse :: "'f body \<Rightarrow> 'f upstreamCurrencyResponse option" where
  "Decode_upstreamCurrencyResponse (JSONObject r) = r"
| "Decode_upstreamCurrencyResponse JSONNull = Some \<lparr>Result = [], Rates = Map.empty\<rparr>"
| "Decode_upstreamCurrencyResponse _ = None"

section \<open>Validation\<close>

definition normalizeISO2 :: "strings_pkg \<Rightarrow> string \<Rightarrow> string" where
  "normalizeISO2 L code = ToLower L (TrimSpace L code)"

text \<open>
  The loop of \<open>validISO2\<close> ranges over the runes of \<open>code\<close>. It runs only when \<open>code\<close> has
  two bytes, and then a byte from 128 on decodes to a rune above \<open>'z'\<close> (a two-byte
  character or the replacement rune), so testing byte by byte gives the same answer.
\<close>

fun validISO2_loop :: "string \<Rightarrow> bool" where
  "validISO2_loop [] = True"
| "validISO2_loop (ch # rest) =
     (if ch < CHR ''a'' \<or> ch > CHR ''z'' then False else validISO2_loop rest)"

definition validISO2 :: "string \<Rightarrow> bool" where
  "validISO2 code = (if length code \<noteq> 2 then False else validISO2_loop code)"

section \<open>Status endpoint\<close>

definition probeHTTP :: "'f upstream \<Rightarrow> 'f trace \<Rightarrow> string \<Rightarrow> int \<times> 'f trace" where
  "probeHTTP up tr url =
     (case httpClient_Get up tr url of
        (TransportError, tr') \<Rightarrow> (StatusBadGateway, tr')
      | (Response sc b, tr') \<Rightarrow> (sc, tr'))"

text \<open>
  \<open>uptime\<close> is the value \<open>uptimeSeconds()\<close> returns when the handler calls it: the
  seconds since the process started, cut to an \<open>int64\<close>.
\<close>

definition StatusHandler :: "'f upstream \<Rightarrow> int \<Rightarrow> request \<Rightarrow> 'f trace \<Rightarrow> 'f response \<times> 'f trace" where
  "StatusHandler up uptime r tr =
     (if Method r \<noteq> MethodGet
      then (writeJSONError StatusMethodNotAllowed ''method not allowed'', tr)
      else
        case probeHTTP up tr (countriesBaseURL @ ''/alpha/no'') of (restStatus, tr1) \<Rightarrow>
        case probeHTTP up tr1 (currencyBaseURL @ ''/NOK'') of (currStatus, tr2) \<Rightarrow>
        let overall = (if restStatus \<noteq> StatusOK \<or> currStatus \<noteq> StatusOK
                       then StatusBadGateway else StatusOK);
            resp = \<lparr>RestCountriesAPI = restStatus, CurrenciesAPI = currStatus,
                    Version = version, Uptime = uptime\<rparr>
        in (writeJSON overall (StatusBody resp), tr2))"

section \<open>Country client\<close>

text \<open>
  The Go function returns a pointer, a status and an error; the model returns the same
  triple, \<open>None\<close> for the nil pointer and for the nil error.
\<close>

definition fetchCountryAlpha ::
  "'f upstream \<Rightarrow> 'f trace \<Rightarrow> string \<Rightarrow> ('f countriesCountry option \<times> int \<times> go_error option) \<times> 'f trace" where
  "fetchCountryAlpha up tr code =
     (let url = countriesBaseURL @ ''/alpha/'' @ code in
      case httpClient_Get up tr url of
        (TransportError, tr') \<Rightarrow> ((None, 0, Some TransportFailure), tr')
      | (Response sc b, tr') \<Rightarrow>
          if sc \<noteq> StatusOK then ((None, sc, None), tr')
          else
            (case Decode_RawMessage b of
               None \<Rightarrow> ((None, 0, Some DecodeFailure), tr')
             | Some raw \<Rightarrow>
                 (case Unmarshal_countries raw of
                    Some arr \<Rightarrow>
                      if length arr > 0 then ((Some (arr ! 0), StatusOK, None), tr')
                      else ((None, 0, Some UnexpectedShape), tr')
                  | None \<Rightarrow> ((None, 0, Some UnexpectedShape), tr'))))"

definition firstCurrencyCodeSorted :: "(string \<times> string) list \<Rightarrow> string" where
  "firstCurrencyCodeSorted m =
     (if length m = 0 then ''''
      else let keys = map fst m in sort keys ! 0)"

section \<open>Info endpoint\<close>

text \<open>
  After the test \<open>c == nil\<close> has sent the nil pointer away, \<open>the c\<close> is the record the
  pointer refers to.
\<close>

definition InfoHandler :: "strings_pkg \<Rightarrow> 'f upstream \<Rightarrow> request \<Rightarrow> 'f trace \<Rightarrow> 'f response \<times> 'f trace" where
  "InfoHandler L up r tr =
     (if Method r \<noteq> MethodGet
      then (writeJSONError StatusMethodNotAllowed ''method not allowed'', tr)
      else
        let code = normalizeISO2 L (TrimPrefix (Path r) ''/countryinfo/v1/info/'') in
        if \<not> validISO2 code
        then (writeJSONError StatusBadRequest
               ''two_letter_country_code must be 2 letters (ISO 3166-2), e.g. /countryinfo/v1/info/no'', tr)
        else
          case fetchCountryAlpha up tr code of ((c, st, err), tr1) \<Rightarrow>
          if err \<noteq> None
          then (writeJSONError StatusBadGateway ''failed to call countries service'', tr1)
          else if st = StatusNotFound \<or> c = None
          then (writeJSONError StatusNotFound ''country not found'', tr1)
          else if st \<noteq> StatusOK
          then (writeJSONError StatusBadGateway ''countries service returned non-200'', tr1)
          else
            let capital = (if length (Capital (the c)) > 0 then Capital (the c) ! 0 else '''');
                flag = (if PNG (Flags (the c)) = '''' then SVG (Flags (the c))
                        else PNG (Flags (the c)));
                out = \<lparr>info_name = Common (Name (the c)),
                       info_continents = Continents (the c),
                       info_population = Population (the c),
                       info_area = Area (the c),
                       info_languages = Languages (the c),
                       info_borders = Borders (the c),
                       info_flag = flag,
                       info_capital = capital\<rparr>
            in (writeJSON StatusOK (InfoBody out), tr1))"

section \<open>Rate client\<close>

definition fetchRates ::
  "'f upstream \<Rightarrow> 'f trace \<Rightarrow> string \<Rightarrow> ('f upstreamCurrencyResponse option \<times> int \<times> go_error option) \<times> 'f trace" where
  "fetchRates up tr base =
     (let url = currencyBaseURL @ ''/'' @ base in
      case httpClient_Get up tr url of
        (TransportError, tr') \<Rightarrow> ((None, 0, Some TransportFailure), tr')
      | (Response sc b, tr') \<Rightarrow>
          if sc \<noteq> StatusOK then ((None, sc, None), tr')
          else
            (case Decode_upstreamCurrencyResponse b of
               None \<Rightarrow> ((None, 0, Some DecodeFailure), tr')
             | Some out \<Rightarrow> ((Some out, StatusOK, None), tr')))"

section \<open>Exchange endpoint\<close>

text \<open>
  Step 3 of the handler, the loop over the border codes. \<open>neigh\<close> is the set
  \<open>neighCurrencies\<close> built so far, kept as a list without repetitions. The loop either
  leaves the handler with a response (\<open>Inl\<close>) or runs to its end (\<open>Inr\<close>, with the set).
\<close>

fun ExchangeHandler_neighbours ::
  "strings_pkg \<Rightarrow> 'f upstream \<Rightarrow> string \<Rightarrow> string list \<Rightarrow> string list \<Rightarrow> 'f trace
     \<Rightarrow> ('f response + string list) \<times> 'f trace" where
  "ExchangeHandler_neighbours L up base [] neigh tr = (Inr neigh, tr)"
| "ExchangeHandler_neighbours L up base (b # bs) neigh tr =
     (let cca3 = TrimSpace L b in
      if cca3 = '''' then ExchangeHandler_neighbours L up base bs neigh tr
      else
        case fetchCountryAlpha up tr cca3 of ((nc, st2, err), tr') \<Rightarrow>
        if err \<noteq> None
        then (Inl (writeJSONError StatusBadGateway
                     ''failed to call countries service for neighbours''), tr')
        else if st2 \<noteq> StatusOK \<or> nc = None
        then (Inl (writeJSONError StatusBadGateway
                     ''countries service failed neighbour lookup''), tr')
        else
          let ccy = ToUpper L (firstCurrencyCodeSorted (Currencies (the nc))) in
          if ccy = '''' \<or> length ccy \<noteq> 3 then ExchangeHandler_neighbours L up base bs neigh tr'
          else if ccy = base then ExchangeHandler_neighbours L up base bs neigh tr'
          else ExchangeHandler_neighbours L up base bs (List.insert ccy neigh) tr')"

text \<open>Step 5, the loop over the set that copies the rates the provider has.\<close>

fun ExchangeHandler_filter ::
  "(string \<rightharpoonup> 'f) \<Rightarrow> string list \<Rightarrow> (string \<rightharpoonup> 'f) \<Rightarrow> (string \<rightharpoonup> 'f)" where
  "ExchangeHandler_filter rates [] outRates = outRates"
| "ExchangeHandler_filter rates (ccy # rest) outRates =
     (case rates ccy of
        Some v \<Rightarrow> ExchangeHandler_filter rates rest (outRates(ccy \<mapsto> v))
      | None \<Rightarrow> ExchangeHandler_filter rates rest outRates)"

definition ExchangeHandler :: "strings_pkg \<Rightarrow> 'f upstream \<Rightarrow> request \<Rightarrow> 'f trace \<Rightarrow> 'f response \<times> 'f trace" where
  "ExchangeHandler L up r tr =
     (if Method r \<noteq> MethodGet
      then (writeJSONError StatusMethodNotAllowed ''method not allowed'', tr)
      else
        let code = normalizeISO2 L (TrimPrefix (Path r) ''/countryinfo/v1/exchange/'') in
        if \<not> validISO2 code
        then (writeJSONError StatusBadRequest
               ''two_letter_country_code must be 2 letters (ISO 3166-2), e.g. /countryinfo/v1/exchange/no'', tr)
        else
          case fetchCountryAlpha up tr code of ((input, st, err), tr1) \<Rightarrow>
          if err \<noteq> None
          then (writeJSONError StatusBadGateway ''failed to call countries service'', tr1)
          else if st = StatusNotFound \<or> input = None
          then (writeJSONError StatusNotFound ''country not found'', tr1)
          else if st \<noteq> StatusOK
          then (writeJSONError StatusBadGateway ''countries service returned non-200'', tr1)
          else
            let base = ToUpper L (firstCurrencyCodeSorted (Currencies (the input))) in
            if base = '''' \<or> length base \<noteq> 3
            then (writeJSONError StatusBadGateway ''input country has no valid currency'', tr1)
            else
              (case ExchangeHandler_neighbours L up base (Borders (the input)) [] tr1 of
                (Inl resp, tr2) \<Rightarrow> (resp, tr2)
              | (Inr neighCurrencies, tr2) \<Rightarrow>
                  if length neighCurrencies = 0
                  then (writeJSON StatusOK
                          (ExchangeBody \<lparr>Country = Common (Name (the input)),
                                         BaseCurrency = base,
                                         ExchangeRates = Map.empty\<rparr>), tr2)
                  else
                    case fetchRates up tr2 base of ((ratesResp, st3, err3), tr3) \<Rightarrow>
                    if err3 \<noteq> None
                    then (writeJSONError StatusBadGateway ''failed to call currency service'', tr3)
                    else if st3 \<noteq> StatusOK \<or> ratesResp = None
                    then (writeJSONError StatusBadGateway ''currency service returned non-200'', tr3)
                    else if Result (the ratesResp) \<noteq> '''' \<and> Result (the ratesResp) \<noteq> ''success''
                    then (writeJSONError StatusBadGateway
                            ''currency service returned result != success'', tr3)
                    else
                      let outRates = ExchangeHandler_filter (Rates (the ratesResp))
                                       neighCurrencies Map.empty
                      in (writeJSON StatusOK
                            (ExchangeBody \<lparr>Country = Common (Name (the input)),
                                           BaseCurrency = base,
                                           ExchangeRates = outRates\<rparr>), tr3)))"

section \<open>Vocabulary of the properties\<close>

text \<open>The code a handler takes from the path of a request.\<close>

abbreviation infoCode :: "strings_pkg \<Rightarrow> request \<Rightarrow> string" where
  "infoCode L r \<equiv> normalizeISO2 L (TrimPrefix (Path r) ''/countryinfo/v1/info/'')"

abbreviation exchangeCode :: "strings_pkg \<Rightarrow> request \<Rightarrow> string" where
  "exchangeCode L r \<equiv> normalizeISO2 L (TrimPrefix (Path r) ''/countryinfo/v1/exchange/'')"

text \<open>The base currency the exchange handler computes for a country record.\<close>

abbreviation baseOf :: "strings_pkg \<Rightarrow> 'f countriesCountry \<Rightarrow> string" where
  "baseOf L c \<equiv> ToUpper L (firstCurrencyCodeSorted (Currencies c))"

text \<open>The URLs that \<open>fetchCountryAlpha\<close> and \<open>fetchRates\<close> build.\<close>

definition alphaURL :: "string \<Rightarrow> string" where
  "alphaURL code = countriesBaseURL @ ''/alpha/'' @ code"

definition ratesURL :: "string \<Rightarrow> string" where
  "ratesURL base = currencyBaseURL @ ''/'' @ base"

text \<open>The HTTP status of an upstream answer, if it has one.\<close>

fun statusOf :: "'f http_result \<Rightarrow> int option" where
  "statusOf TransportError = None"
| "statusOf (Response sc b) = Some sc"

text \<open>An entry of the trace is a call to the rate provider when its URL lies under
  \<open>currencyBaseURL\<close>.\<close>

definition rate_call :: "string \<times> 'f http_result \<Rightarrow> bool" where
  "rate_call e = (take (length currencyBaseURL) (fst e) = currencyBaseURL)"

text \<open>The specification's \<open>^[a-z]{2}$\<close>.\<close>

definition two_lowercase_letters :: "string \<Rightarrow> bool" where
  "two_lowercase_letters s = (length s = 2 \<and> (\<forall>c\<in>set s. CHR ''a'' \<le> c \<and> c \<le> CHR ''z''))"

text \<open>The specification's "exactly 3 uppercase letters".\<close>

definition three_uppercase_letters :: "string \<Rightarrow> bool" where
  "three_uppercase_letters s =
     (length s = 3 \<and> list_all (\<lambda>c. CHR ''A'' \<le> c \<and> c \<le> CHR ''Z'') s)"

text \<open>The number of characters of a UTF-8 string: its bytes that do not continue a
  character.\<close>

definition characters :: "string \<Rightarrow> nat" where
  "characters s = length (filter (\<lambda>c. \<not> (CHR 0x80 \<le> c \<and> c \<le> CHR 0xBF)) s)"

text \<open>The euro sign, U+20AC, in UTF-8.\<close>

definition euro_sign :: string where
  "euro_sign = [CHR 0xE2, CHR 0x82, CHR 0xAC]"

text \<open>What a response of the exchange endpoint shows: its base currency, and the rate it
  lists for a currency code.\<close>

definition baseCurrencyOf :: "'f response \<Rightarrow> string option" where
  "baseCurrencyOf resp =
     (case payload resp of ExchangeBody out \<Rightarrow> Some (BaseCurrency out) | _ \<Rightarrow> None)"

definition exchangeRateOf :: "'f response \<Rightarrow> string \<Rightarrow> 'f option" where
  "exchangeRateOf resp k =
     (case payload resp of ExchangeBody out \<Rightarrow> ExchangeRates out k | _ \<Rightarrow> None)"

section \<open>Example upstreams\<close>

definition example_country :: "string \<Rightarrow> string list \<Rightarrow> string list \<Rightarrow> real countriesCountry" where
  "example_country name borders ccys =
     \<lparr>Name = \<lparr>Common = name\<rparr>, Continents = [''Europe''], Population = 5379475,
      Area = 323802, Languages = Map.empty, Borders = borders,
      Flags = \<lparr>PNG = ''https://flagcdn.com/w320/no.png'', SVG = ''https://flagcdn.com/no.svg''\<rparr>,
      Capital = [''Oslo''], Currencies = map (\<lambda>k. (k, ''{}'')) ccys\<rparr>"

definition answer_country :: "string \<Rightarrow> string list \<Rightarrow> string list \<Rightarrow> real http_result" where
  "answer_country name borders ccys =
     Response StatusOK (JSONArray (Some [example_country name borders ccys]))"

definition answer_rates :: "(string \<rightharpoonup> real) \<Rightarrow> real http_result" where
  "answer_rates m =
     Response StatusOK (JSONObject (Some \<lparr>Result = ''success'', Rates = m\<rparr>))"

text \<open>
  Norway with its three neighbours and a rate provider that knows two of their
  currencies; Monaco, whose only neighbour shares its currency; Iceland, which has no
  neighbour; Liechtenstein, one of
  whose two neighbours shares its currency, with a rate provider that lists the base
  currency too; Panama with two currencies; Antarctica with none; and two invented
  countries whose currency keys are not letters.
\<close>

definition upstream_example :: "real upstream" where
  "upstream_example tr url =
     (if url = alphaURL ''no'' then answer_country ''Norway'' [''SWE'', ''FIN'', ''RUS''] [''NOK'']
      else if url = alphaURL ''SWE'' then answer_country ''Sweden'' [''NOR'', ''FIN''] [''SEK'']
      else if url = alphaURL ''FIN'' then answer_country ''Finland'' [''NOR'', ''SWE'', ''RUS''] [''EUR'']
      else if url = alphaURL ''RUS'' then answer_country ''Russia'' [''NOR'', ''FIN''] [''RUB'']
      else if url = alphaURL ''mc'' then answer_country ''Monaco'' [''FRA''] [''EUR'']
      else if url = alphaURL ''FRA'' then answer_country ''France'' [''MCO''] [''EUR'']
      else if url = alphaURL ''is'' then answer_country ''Iceland'' [] [''ISK'']
      else if url = alphaURL ''li'' then answer_country ''Liechtenstein'' [''AUT'', ''CHE''] [''CHF'']
      else if url = alphaURL ''AUT'' then answer_country ''Austria'' [''CHE'', ''LIE''] [''EUR'']
      else if url = alphaURL ''CHE'' then answer_country ''Switzerland'' [''AUT'', ''LIE''] [''CHF'']
      else if url = alphaURL ''pa'' then answer_country ''Panama'' [] [''USD'', ''PAB'']
      else if url = alphaURL ''aq'' then answer_country ''Antarctica'' [] []
      else if url = alphaURL ''xx'' then answer_country ''Testland'' [''YYY''] [''123'']
      else if url = alphaURL ''YYY'' then answer_country ''Otherland'' [''XXX''] [''4x6'']
      else if url = ratesURL ''NOK'' then answer_rates [''SEK'' \<mapsto> 10.5, ''EUR'' \<mapsto> 11.2]
      else if url = ratesURL ''CHF'' then answer_rates [''EUR'' \<mapsto> 1.05, ''CHF'' \<mapsto> 1]
      else if url = ratesURL ''123'' then answer_rates [''4X6'' \<mapsto> 2]
      else Response StatusNotFound NotJSON)"

text \<open>The same, with the lookup of Finland failing in transport.\<close>

definition upstream_neighbour_down :: "real upstream" where
  "upstream_neighbour_down tr url =
     (if url = alphaURL ''FIN'' then TransportError else upstream_example tr url)"

text \<open>The same, with the lookup of Sweden answered with status 500.\<close>

definition upstream_neighbour_500 :: "real upstream" where
  "upstream_neighbour_500 tr url =
     (if url = alphaURL ''SWE'' then Response 500 NotJSON else upstream_example tr url)"

text \<open>A country provider whose every country has no border and the euro sign as its
  only currency key.\<close>

definition upstream_euro_sign :: "real upstream" where
  "upstream_euro_sign tr url = answer_country ''Euroland'' [] [euro_sign]"

text \<open>The same, with the rate provider unreachable.\<close>

definition upstream_rates_down :: "real upstream" where
  "upstream_rates_down tr url =
     (if url = ratesURL ''NOK'' then TransportError else upstream_example tr url)"

text \<open>A country provider that answers every request with status 500.\<close>

definition upstream_500 :: "real upstream" where
  "upstream_500 tr url = Response 500 NotJSON"

text \<open>A country provider that answers with the single object for a country, not
  wrapped in a list. Such an object has no field of an \<open>upstreamCurrencyResponse\<close>, so
  decoded as one it gives the zero value.\<close>

definition upstream_object :: "real upstream" where
  "upstream_object tr url =
     Response StatusOK (JSONObject (Some \<lparr>Result = '''', Rates = Map.empty\<rparr>))"

text \<open>A country provider that answers with the empty list.\<close>

definition upstream_empty_array :: "real upstream" where
  "upstream_empty_array tr url = Response StatusOK (JSONArray (Some []))"

definition get_status :: request where
  "get_status = \<lparr>Method = ''GET'', Path = ''/countryinfo/v1/status/''\<rparr>"

definition get_info :: "string \<Rightarrow> request" where
  "get_info code = \<lparr>Method = ''GET'', Path = ''/countryinfo/v1/info/'' @ code\<rparr>"

definition get_exchange :: "string \<Rightarrow> request" where
  "get_exchange code = \<lparr>Method = ''GET'', Path = ''/countryinfo/v1/exchange/'' @ code\<rparr>"

section \<open>Properties of the parts\<close>

lemmas eval_defs =
  upstream_neighbour_500_def upstream_euro_sign_def euro_sign_def characters_def
  upstream_example_def upstream_neighbour_down_def upstream_rates_down_def upstream_500_def
  upstream_object_def upstream_empty_array_def answer_country_def answer_rates_def
  example_country_def get_status_def get_info_def get_exchange_def
  normalizeISO2_def TrimPrefix_def ascii_strings_def ascii_TrimSpace_def asciiSpace_def
  ascii_ToLower_def ascii_ToUpper_def
  lowerByte_def upperByte_def validISO2_def firstCurrencyCodeSorted_def Let_def
  baseCurrencyOf_def exchangeRateOf_def countriesBaseURL_def currencyBaseURL_def
  alphaURL_def ratesURL_def

subsection \<open>Responses\<close>

lemma status_writeJSON [simp]: "status (writeJSON st v) = st"
  by (simp add: writeJSON_def)

lemma payload_writeJSON [simp]: "payload (writeJSON st v) = v"
  by (simp add: writeJSON_def)

lemma status_writeJSONError [simp]: "status (writeJSONError st msg) = st"
  by (simp add: writeJSONError_def)

lemma payload_writeJSONError [simp]: "payload (writeJSONError st msg) = ErrBody \<lparr>Error = msg\<rparr>"
  by (simp add: writeJSONError_def)

subsection \<open>Validation\<close>

lemma validISO2_loop_iff: "validISO2_loop xs \<longleftrightarrow> (\<forall>c\<in>set xs. CHR ''a'' \<le> c \<and> c \<le> CHR ''z'')"
  by (induction xs) auto

lemma validISO2_iff: "validISO2 s \<longleftrightarrow> two_lowercase_letters s"
  by (simp add: validISO2_def two_lowercase_letters_def validISO2_loop_iff)

subsection \<open>The two clients\<close>

lemma fetchCountryAlpha_eq:
  "fetchCountryAlpha up tr code =
     ((case up tr (alphaURL code) of
         TransportError \<Rightarrow> (None, 0, Some TransportFailure)
       | Response sc b \<Rightarrow>
           if sc \<noteq> StatusOK then (None, sc, None)
           else (case Decode_RawMessage b of
                   None \<Rightarrow> (None, 0, Some DecodeFailure)
                 | Some raw \<Rightarrow>
                     (case Unmarshal_countries raw of
                        Some (c # cs) \<Rightarrow> (Some c, StatusOK, None)
                      | _ \<Rightarrow> (None, 0, Some UnexpectedShape)))),
      tr @ [(alphaURL code, up tr (alphaURL code))])"
  by (simp add: fetchCountryAlpha_def httpClient_Get_def Let_def alphaURL_def
           split: http_result.splits option.splits list.splits)

lemma fetchCountryAlpha_trace:
  "snd (fetchCountryAlpha up tr code) = tr @ [(alphaURL code, up tr (alphaURL code))]"
  by (simp add: fetchCountryAlpha_eq)

lemma fetchCountryAlpha_ok:
  assumes "fetchCountryAlpha up tr code = ((nc, st, err), tr1)"
    and "err = None" and "st = StatusOK"
  shows "statusOf (up tr (alphaURL code)) = Some StatusOK"
  using assms
  by (auto simp add: fetchCountryAlpha_eq
      split: http_result.splits if_splits option.splits list.splits)

lemma fetchCountryAlpha_Some:
  "fetchCountryAlpha up tr code = ((Some c, st, err), tr1) \<Longrightarrow> st = StatusOK \<and> err = None"
  by (auto simp add: fetchCountryAlpha_eq
      split: http_result.splits if_splits option.splits list.splits)

lemma fetchRates_eq:
  "fetchRates up tr base =
     ((case up tr (ratesURL base) of
         TransportError \<Rightarrow> (None, 0, Some TransportFailure)
       | Response sc b \<Rightarrow>
           if sc \<noteq> StatusOK then (None, sc, None)
           else (case Decode_upstreamCurrencyResponse b of
                   None \<Rightarrow> (None, 0, Some DecodeFailure)
                 | Some out \<Rightarrow> (Some out, StatusOK, None))),
      tr @ [(ratesURL base, up tr (ratesURL base))])"
  by (simp add: fetchRates_def httpClient_Get_def Let_def ratesURL_def
           split: http_result.splits option.splits)

lemma alphaURL_no_rate_call: "\<not> rate_call (alphaURL code, a)"
  by (simp add: rate_call_def alphaURL_def countriesBaseURL_def currencyBaseURL_def)

subsection \<open>The smallest currency key\<close>

lemma firstCurrencyCodeSorted_Min:
  assumes "m \<noteq> []"
  shows "firstCurrencyCodeSorted m = Min (fst ` set m)"
proof -
  from assms obtain y ys where s: "sort (map fst m) = y # ys"
    by (cases "sort (map fst m)") (auto dest: arg_cong [where f = length])
  have "sorted (sort (map fst m))" by simp
  then have "sorted (y # ys)" by (simp only: s)
  moreover have "set (sort (map fst m)) = fst ` set m" by simp
  then have "set (y # ys) = fst ` set m" by (simp only: s)
  ultimately have "Min (fst ` set m) = y"
    by (intro Min_eqI) auto
  with assms s show ?thesis by (simp add: firstCurrencyCodeSorted_def)
qed

subsection \<open>The loop over the border codes\<close>

text \<open>A loop that leaves the handler does so with status 502.\<close>

lemma neighbours_Inl:
  "ExchangeHandler_neighbours L up base bs neigh tr = (Inl resp, tr')
     \<Longrightarrow> status resp = StatusBadGateway"
proof (induction bs arbitrary: neigh tr)
  case Nil
  then show ?case by simp
next
  case (Cons b bs)
  then show ?case
    by (auto simp add: Let_def split: if_splits prod.splits)
qed

text \<open>
  The loop only adds calls to the trace, each of them a lookup at the country provider,
  and a lookup that is not answered with status 200 ends the loop with a response.
\<close>

lemma neighbours_trace:
  "ExchangeHandler_neighbours L up base bs neigh tr = (res, tr') \<Longrightarrow>
     \<exists>es. tr' = tr @ es \<and>
       (\<forall>e\<in>set es. (\<exists>code. fst e = alphaURL code) \<and>
          (statusOf (snd e) \<noteq> Some StatusOK \<longrightarrow> (\<exists>resp. res = Inl resp)))"
proof (induction bs arbitrary: neigh tr)
  case Nil
  then show ?case by simp
next
  case (Cons b bs)
  show ?case
  proof (cases "TrimSpace L b = ''''")
    case True
    with Cons show ?thesis by simp
  next
    case False
    let ?u = "alphaURL (TrimSpace L b)"
    let ?a = "up tr ?u"
    let ?tr1 = "tr @ [(?u, ?a)]"
    obtain nc st2 err where f: "fetchCountryAlpha up tr (TrimSpace L b) = ((nc, st2, err), ?tr1)"
      by (metis fetchCountryAlpha_trace prod.collapse)
    show ?thesis
    proof (cases "err \<noteq> None \<or> st2 \<noteq> StatusOK \<or> nc = None")
      case True
      with Cons.prems False f have "\<exists>resp. res = Inl resp" and "tr' = ?tr1"
        by (auto simp add: Let_def split: if_splits)
      then show ?thesis by auto
    next
      case ok: False
      then have a: "statusOf ?a = Some StatusOK"
        using fetchCountryAlpha_ok [OF f] by simp
      from Cons.prems False f ok obtain neigh' where
        "ExchangeHandler_neighbours L up base bs neigh' ?tr1 = (res, tr')"
        by (auto simp add: Let_def split: if_splits)
      from Cons.IH [OF this] obtain es where
        es: "tr' = ?tr1 @ es"
          "\<forall>e\<in>set es. (\<exists>code. fst e = alphaURL code) \<and>
             (statusOf (snd e) \<noteq> Some StatusOK \<longrightarrow> (\<exists>resp. res = Inl resp))"
        by blast
      have "tr' = tr @ ((?u, ?a) # es)" using es(1) by simp
      moreover have "\<forall>e\<in>set ((?u, ?a) # es). (\<exists>code. fst e = alphaURL code) \<and>
             (statusOf (snd e) \<noteq> Some StatusOK \<longrightarrow> (\<exists>resp. res = Inl resp))"
        using es(2) a by auto
      ultimately show ?thesis by blast
    qed
  qed
qed

lemma neighbours_trace_drop:
  assumes "ExchangeHandler_neighbours L up base bs neigh tr = (res, tr')"
  shows "take (length tr) tr' = tr"
    and "\<forall>e\<in>set (drop (length tr) tr'). \<not> rate_call e"
    and "\<forall>e\<in>set (drop (length tr) tr').
           statusOf (snd e) \<noteq> Some StatusOK \<longrightarrow> (\<exists>resp. res = Inl resp)"
proof -
  from neighbours_trace [OF assms] obtain es where es: "tr' = tr @ es"
    "\<forall>e\<in>set es. (\<exists>code. fst e = alphaURL code) \<and>
          (statusOf (snd e) \<noteq> Some StatusOK \<longrightarrow> (\<exists>resp. res = Inl resp))"
    by blast
  show "take (length tr) tr' = tr" using es(1) by simp
  show "\<forall>e\<in>set (drop (length tr) tr'). \<not> rate_call e"
  proof
    fix e assume "e \<in> set (drop (length tr) tr')"
    then have "e \<in> set es" using es(1) by simp
    with es(2) have "\<exists>code. fst e = alphaURL code" by auto
    then obtain code where "fst e = alphaURL code" ..
    then have "e = (alphaURL code, snd e)" by (metis prod.collapse)
    then show "\<not> rate_call e" by (metis alphaURL_no_rate_call)
  qed
  show "\<forall>e\<in>set (drop (length tr) tr').
          statusOf (snd e) \<noteq> Some StatusOK \<longrightarrow> (\<exists>resp. res = Inl resp)"
    using es by simp
qed




text \<open>What one round of the loop does to the set.\<close>

lemma neighbours_step:
  "ExchangeHandler_neighbours L up base (b # bs) neigh tr = (Inr ns, tr') \<Longrightarrow>
     \<exists>neigh' tr1. ExchangeHandler_neighbours L up base bs neigh' tr1 = (Inr ns, tr') \<and>
       (neigh' = neigh \<or>
        (\<exists>c. neigh' = List.insert (ToUpper L c) neigh \<and> length (ToUpper L c) = 3 \<and>
             ToUpper L c \<noteq> base))"
  by (auto simp add: Let_def split: if_splits prod.splits)

lemma neighbours_inv:
  "ExchangeHandler_neighbours L up base bs neigh tr = (Inr ns, tr') \<Longrightarrow>
     \<forall>k\<in>set neigh. length k = 3 \<and> k \<noteq> base \<and> k \<in> range (ToUpper L) \<Longrightarrow>
     \<forall>k\<in>set ns. length k = 3 \<and> k \<noteq> base \<and> k \<in> range (ToUpper L)"
proof (induction bs arbitrary: neigh tr)
  case Nil
  then show ?case by simp
next
  case (Cons b bs)
  from neighbours_step [OF Cons.prems(1)] obtain neigh' tr1 where
    run: "ExchangeHandler_neighbours L up base bs neigh' tr1 = (Inr ns, tr')" and
    n: "neigh' = neigh \<or>
        (\<exists>c. neigh' = List.insert (ToUpper L c) neigh \<and> length (ToUpper L c) = 3 \<and>
             ToUpper L c \<noteq> base)"
    by blast
  from n Cons.prems(2) have "\<forall>k\<in>set neigh'. length k = 3 \<and> k \<noteq> base \<and> k \<in> range (ToUpper L)"
    by auto
  with run show ?case by (rule Cons.IH)
qed

subsection \<open>The loop over the set\<close>

lemma ExchangeHandler_filter_eq:
  "ExchangeHandler_filter rates ns out k =
     (if k \<in> set ns \<and> rates k \<noteq> None then rates k else out k)"
  by (induction ns arbitrary: out) (auto split: option.splits)

lemma ExchangeHandler_filter_restrict:
  "ExchangeHandler_filter rates ns Map.empty = rates |` set ns"
  by (rule ext) (auto simp add: ExchangeHandler_filter_eq restrict_map_def)

subsection \<open>The exchange handler, by stage\<close>

text \<open>Without a country record the handler answers before the loop, and not with 200.\<close>

lemma ExchangeHandler_early:
  assumes "\<not> (Method r = MethodGet \<and> validISO2 (exchangeCode L r) \<and>
             (\<exists>c. fst (fst (fetchCountryAlpha up tr (exchangeCode L r))) = Some c))"
  shows "status (fst (ExchangeHandler L up r tr)) \<noteq> StatusOK"
proof (cases "Method r = MethodGet \<and> validISO2 (exchangeCode L r)")
  case False
  then show ?thesis by (auto simp add: ExchangeHandler_def Let_def)
next
  case True
  obtain input st err tr1 where
    f: "fetchCountryAlpha up tr (exchangeCode L r) = ((input, st, err), tr1)"
    by (metis prod.collapse)
  with assms True have "input = None" by auto
  with True f show ?thesis
    by (simp add: ExchangeHandler_def Let_def)
qed

lemma ExchangeHandler_no_currency:
  assumes "Method r = MethodGet" and "validISO2 (exchangeCode L r)"
    and "fetchCountryAlpha up tr (exchangeCode L r) = ((Some c, st, err), tr1)"
    and "length (baseOf L c) \<noteq> 3"
  shows "ExchangeHandler L up r tr =
           (writeJSONError StatusBadGateway ''input country has no valid currency'', tr1)"
  using assms fetchCountryAlpha_Some [OF assms(3)]
  by (simp add: ExchangeHandler_def Let_def)

lemma ExchangeHandler_fetched:
  assumes "Method r = MethodGet" and "validISO2 (exchangeCode L r)"
    and "fetchCountryAlpha up tr (exchangeCode L r) = ((Some c, st, err), tr1)"
    and "length (baseOf L c) = 3"
  shows "ExchangeHandler L up r tr =
        (case ExchangeHandler_neighbours L up (baseOf L c) (Borders c) [] tr1 of
           (Inl resp, tr2) \<Rightarrow> (resp, tr2)
         | (Inr ns, tr2) \<Rightarrow>
             if ns = []
             then (writeJSON StatusOK
                     (ExchangeBody \<lparr>Country = Common (Name c), BaseCurrency = baseOf L c,
                                    ExchangeRates = Map.empty\<rparr>), tr2)
             else
               (case fetchRates up tr2 (baseOf L c) of ((ratesResp, st3, err3), tr3) \<Rightarrow>
                  if err3 \<noteq> None
                  then (writeJSONError StatusBadGateway ''failed to call currency service'', tr3)
                  else if st3 \<noteq> StatusOK \<or> ratesResp = None
                  then (writeJSONError StatusBadGateway ''currency service returned non-200'', tr3)
                  else if Result (the ratesResp) \<noteq> '''' \<and> Result (the ratesResp) \<noteq> ''success''
                  then (writeJSONError StatusBadGateway
                          ''currency service returned result != success'', tr3)
                  else (writeJSON StatusOK
                          (ExchangeBody \<lparr>Country = Common (Name c), BaseCurrency = baseOf L c,
                                         ExchangeRates = Rates (the ratesResp) |` set ns\<rparr>), tr3)))"
proof -
  from assms(4) have "baseOf L c \<noteq> ''''" by auto
  with assms fetchCountryAlpha_Some [OF assms(3)] show ?thesis
    by (simp add: ExchangeHandler_def Let_def ExchangeHandler_filter_restrict
        split: prod.splits sum.splits)
qed

lemma baseCurrencyOf_simps [simp]:
  "baseCurrencyOf (writeJSON st (ExchangeBody out)) = Some (BaseCurrency out)"
  "baseCurrencyOf (writeJSONError st msg) = None"
  by (simp_all add: baseCurrencyOf_def)

lemma exchangeRateOf_simps [simp]:
  "exchangeRateOf (writeJSON st (ExchangeBody out)) k = ExchangeRates out k"
  "exchangeRateOf (writeJSONError st msg) k = None"
  by (simp_all add: exchangeRateOf_def)

section \<open>The claims\<close>

text \<open>
  Claim C1: for a request to the info or exchange endpoint with a valid 2-letter code,
  a country fetch that completes with an HTTP status other than 200 and 404 is to be
  answered with 502, and 404 is to be kept for "not found".

  The handlers do otherwise. \<open>fetchCountryAlpha\<close> returns the nil pointer for every
  status but 200, and both handlers test \<open>st == 404 || c == nil\<close> before they test
  \<open>st != 200\<close>: every status other than 200 is answered with 404, and the branch that
  would answer 502 is never reached.
\<close>

theorem upstream_error_answered_404:
  "(Method r = MethodGet \<and> validISO2 (infoCode L r) \<and>
      up tr (alphaURL (infoCode L r)) = Response sc b \<and> sc \<noteq> StatusOK
      \<longrightarrow> status (fst (InfoHandler L up r tr)) = StatusNotFound) \<and>
   (Method r' = MethodGet \<and> validISO2 (exchangeCode L r') \<and>
      up tr (alphaURL (exchangeCode L r')) = Response sc b \<and> sc \<noteq> StatusOK
      \<longrightarrow> status (fst (ExchangeHandler L up r' tr)) = StatusNotFound)"
  by (simp add: InfoHandler_def ExchangeHandler_def fetchCountryAlpha_eq Let_def)

theorem upstream_error_answered_404_witness:
  "status (fst (InfoHandler ascii_strings upstream_500 (get_info ''no'') [])) = 404 \<and>
   status (fst (ExchangeHandler ascii_strings upstream_500 (get_exchange ''no'') [])) = 404"
proof -
  let ?ri = "get_info ''no''"
  let ?re = "get_exchange ''no''"
  have i: "Method ?ri = MethodGet \<and> validISO2 (infoCode ascii_strings ?ri) \<and>
           upstream_500 [] (alphaURL (infoCode ascii_strings ?ri)) = Response 500 NotJSON \<and> 500 \<noteq> StatusOK"
    by (simp add: eval_defs)
  have e: "Method ?re = MethodGet \<and> validISO2 (exchangeCode ascii_strings ?re) \<and>
           upstream_500 [] (alphaURL (exchangeCode ascii_strings ?re)) = Response 500 NotJSON \<and> 500 \<noteq> StatusOK"
    by (simp add: eval_defs)
  from upstream_error_answered_404 [of ?ri ascii_strings upstream_500 "[]" 500 NotJSON ?re] i e
  show ?thesis by blast
qed

text \<open>
  Claim C2: on a 200 answer the country client is to accept both payload shapes, a single
  JSON object and a one-element JSON list, and to fail with a shape error only when
  neither parses.

  The client tries the list only. A single object, whatever it holds, does not
  unmarshal into a slice, so the client returns the shape error for it.
\<close>

theorem object_payload_rejected:
  "up tr (alphaURL code) = Response StatusOK (JSONObject x)
     \<Longrightarrow> fst (fetchCountryAlpha up tr code) = (None, 0, Some UnexpectedShape)"
  by (simp add: fetchCountryAlpha_eq)

theorem object_payload_rejected_witness:
  "fst (fetchCountryAlpha upstream_object [] ''no'') = (None, 0, Some UnexpectedShape)"
proof -
  have "upstream_object [] (alphaURL ''no'') =
          Response StatusOK (JSONObject (Some \<lparr>Result = [], Rates = Map.empty\<rparr>))"
    by (simp add: upstream_object_def)
  then show ?thesis by (rule object_payload_rejected)
qed

text \<open>
  Claim C3: when the trimmed and lower-cased input is not exactly two characters in
  \<open>a\<close> to \<open>z\<close>, the info and the exchange endpoint answer 400 and no upstream call is
  made: validation comes before any network call. The trace is unchanged whatever the
  method is; a GET request is answered with 400.
\<close>

theorem invalid_code_rejected:
  "(\<not> two_lowercase_letters (infoCode L r)
      \<longrightarrow> snd (InfoHandler L up r tr) = tr \<and>
          (Method r = MethodGet \<longrightarrow> status (fst (InfoHandler L up r tr)) = StatusBadRequest)) \<and>
   (\<not> two_lowercase_letters (exchangeCode L r')
      \<longrightarrow> snd (ExchangeHandler L up r' tr) = tr \<and>
          (Method r' = MethodGet \<longrightarrow>
             status (fst (ExchangeHandler L up r' tr)) = StatusBadRequest))"
  by (simp add: InfoHandler_def ExchangeHandler_def validISO2_iff Let_def)

theorem invalid_code_rejected_witness:
  "snd (InfoHandler ascii_strings upstream_example (get_info ''nor'') []) = [] \<and>
   status (fst (InfoHandler ascii_strings upstream_example (get_info ''nor'') [])) = 400 \<and>
   snd (ExchangeHandler ascii_strings upstream_example (get_exchange '' N0 '') []) = [] \<and>
   status (fst (ExchangeHandler ascii_strings upstream_example (get_exchange '' N0 '') [])) = 400"
proof -
  let ?ri = "get_info ''nor''"
  let ?re = "get_exchange '' N0 ''"
  have i: "\<not> two_lowercase_letters (infoCode ascii_strings ?ri)" and "Method ?ri = MethodGet"
    and e: "\<not> two_lowercase_letters (exchangeCode ascii_strings ?re)" and "Method ?re = MethodGet"
    by (simp_all add: eval_defs two_lowercase_letters_def)
  with invalid_code_rejected [of ascii_strings ?ri upstream_example "[]" ?re]
  show ?thesis by blast
qed

text \<open>
  Claim C4 says that the exchange endpoint takes as base currency the lexicographically
  smallest key of the country's currency map, upper-cased, and answers 502 when the map
  is empty or that code is not exactly 3 characters long. The handler tests \<open>len\<close>, the
  number of bytes: the euro sign is one character of three bytes, \<open>strings.ToUpper\<close>
  leaves it as it is, and a country whose only currency key it is gets the answer 200.
\<close>

theorem base_currency_counterexample:
  "status (fst (ExchangeHandler ascii_strings upstream_euro_sign (get_exchange ''eu'') [])) = 200 \<and>
   baseCurrencyOf (fst (ExchangeHandler ascii_strings upstream_euro_sign (get_exchange ''eu'') [])) =
     Some euro_sign \<and>
   characters euro_sign = 1 \<and> length euro_sign = 3"
  by (simp add: eval_defs ExchangeHandler_def fetchCountryAlpha_eq)

text \<open>
  Claim C4, amended: for a successfully fetched input country the exchange endpoint takes
  as base currency the lexicographically smallest key of the country's currency map,
  upper-cased; when the map is empty or that code is not exactly 3 bytes long, it answers
  502. Every response with status 200 carries that base currency. Upper-casing leaves the
  empty string empty, as \<open>strings.ToUpper\<close> does.
\<close>

theorem base_currency_selection:
  assumes "Method r = MethodGet" and "validISO2 (exchangeCode L r)"
    and "fetchCountryAlpha up tr (exchangeCode L r) = ((Some c, StatusOK, None), tr1)"
    and "ToUpper L '''' = ''''"
  shows "(Currencies c \<noteq> [] \<longrightarrow>
            firstCurrencyCodeSorted (Currencies c) = Min (fst ` set (Currencies c))) \<and>
         (Currencies c = [] \<or> length (baseOf L c) \<noteq> 3 \<longrightarrow>
            status (fst (ExchangeHandler L up r tr)) = StatusBadGateway) \<and>
         (status (fst (ExchangeHandler L up r tr)) = StatusOK \<longrightarrow>
            baseCurrencyOf (fst (ExchangeHandler L up r tr)) = Some (baseOf L c))"
proof (intro conjI impI)
  assume "Currencies c \<noteq> []"
  then show "firstCurrencyCodeSorted (Currencies c) = Min (fst ` set (Currencies c))"
    by (rule firstCurrencyCodeSorted_Min)
next
  assume "Currencies c = [] \<or> length (baseOf L c) \<noteq> 3"
  then have "length (baseOf L c) \<noteq> 3"
    using assms(4) by (auto simp add: firstCurrencyCodeSorted_def)
  then show "status (fst (ExchangeHandler L up r tr)) = StatusBadGateway"
    by (simp add: ExchangeHandler_no_currency [OF assms(1-3)])
next
  assume ok: "status (fst (ExchangeHandler L up r tr)) = StatusOK"
  then have len: "length (baseOf L c) = 3"
    using ExchangeHandler_no_currency [OF assms(1-3)] by force
  from ok show "baseCurrencyOf (fst (ExchangeHandler L up r tr)) = Some (baseOf L c)"
    by (auto simp add: ExchangeHandler_fetched [OF assms(1-3) len] dest: neighbours_Inl
        split: if_splits prod.splits sum.splits)
qed

theorem base_currency_selection_witness:
  "status (fst (ExchangeHandler ascii_strings upstream_example (get_exchange ''pa'') [])) = 200 \<and>
   baseCurrencyOf (fst (ExchangeHandler ascii_strings upstream_example (get_exchange ''pa'') [])) = Some ''PAB'' \<and>
   status (fst (ExchangeHandler ascii_strings upstream_example (get_exchange ''aq'') [])) = 502"
proof -
  let ?pa = "get_exchange ''pa''"
  let ?aq = "get_exchange ''aq''"
  let ?panama = "example_country ''Panama'' [] [''USD'', ''PAB'']"
  let ?antarctica = "example_country ''Antarctica'' [] []"
  have g: "Method ?pa = MethodGet" "Method ?aq = MethodGet"
    and v: "validISO2 (exchangeCode ascii_strings ?pa)" "validISO2 (exchangeCode ascii_strings ?aq)"
    by (simp_all add: eval_defs)
  have fp: "fetchCountryAlpha upstream_example [] (exchangeCode ascii_strings ?pa) =
              ((Some ?panama, StatusOK, None), [(alphaURL ''pa'', answer_country ''Panama'' [] [''USD'', ''PAB''])])"
    by (simp add: eval_defs fetchCountryAlpha_eq)
  have fa: "fetchCountryAlpha upstream_example [] (exchangeCode ascii_strings ?aq) =
              ((Some ?antarctica, StatusOK, None), [(alphaURL ''aq'', answer_country ''Antarctica'' [] [])])"
    by (simp add: eval_defs fetchCountryAlpha_eq)
  have ok: "status (fst (ExchangeHandler ascii_strings upstream_example ?pa [])) = 200"
    by (simp add: eval_defs ExchangeHandler_def fetchCountryAlpha_eq)
  have b: "baseOf ascii_strings ?panama = ''PAB''" and n: "Currencies ?antarctica = []"
    and u: "ToUpper ascii_strings [] = []"
    by (simp_all add: eval_defs)
  from base_currency_selection [OF g(1) v(1) fp u] ok b
  have "baseCurrencyOf (fst (ExchangeHandler ascii_strings upstream_example ?pa [])) = Some ''PAB''"
    by simp
  moreover from base_currency_selection [OF g(2) v(2) fa u] n
  have "status (fst (ExchangeHandler ascii_strings upstream_example ?aq [])) = 502"
    by blast
  ultimately show ?thesis using ok by simp
qed



text \<open>
  Claim C6: when the accumulated set of neighbour currencies is empty (no borders, or
  every neighbour currency skipped), the exchange endpoint answers 200 with an empty
  exchange-rates mapping and the rate provider is never called: the handler returns
  with the trace the loop left, and none of the calls it added is a call to the rate
  provider.
\<close>

theorem empty_neighbour_set:
  assumes "Method r = MethodGet" and "validISO2 (exchangeCode L r)"
    and "fetchCountryAlpha up tr (exchangeCode L r) = ((Some c, StatusOK, None), tr1)"
    and "length (baseOf L c) = 3"
    and "ExchangeHandler_neighbours L up (baseOf L c) (Borders c) [] tr1 = (Inr [], tr2)"
  shows "ExchangeHandler L up r tr =
           (writeJSON StatusOK
              (ExchangeBody \<lparr>Country = Common (Name c), BaseCurrency = baseOf L c,
                             ExchangeRates = Map.empty\<rparr>), tr2) \<and>
         take (length tr) tr2 = tr \<and>
         (\<forall>e\<in>set (drop (length tr) tr2). \<not> rate_call e)"
proof -
  let ?e = "(alphaURL (exchangeCode L r), up tr (alphaURL (exchangeCode L r)))"
  have t1: "tr1 = tr @ [?e]"
    using assms(3) fetchCountryAlpha_trace [of up tr "exchangeCode L r"] by simp
  have t2: "take (length tr1) tr2 = tr1" "\<forall>e\<in>set (drop (length tr1) tr2). \<not> rate_call e"
    using neighbours_trace_drop [OF assms(5)] by blast+
  from t2(1) obtain es where es: "tr2 = tr1 @ es"
    by (metis append_take_drop_id)
  have "drop (length tr) tr2 = ?e # es"
    using es t1 by simp
  moreover have "\<forall>e\<in>set es. \<not> rate_call e" using t2(2) es by simp
  ultimately have "\<forall>e\<in>set (drop (length tr) tr2). \<not> rate_call e"
    by (simp add: alphaURL_no_rate_call)
  moreover have "take (length tr) tr2 = tr" using es t1 by simp
  moreover have "ExchangeHandler L up r tr =
           (writeJSON StatusOK
              (ExchangeBody \<lparr>Country = Common (Name c), BaseCurrency = baseOf L c,
                             ExchangeRates = Map.empty\<rparr>), tr2)"
    using assms(5) by (simp add: ExchangeHandler_fetched [OF assms(1-4)])
  ultimately show ?thesis by blast
qed

theorem empty_neighbour_set_witness:
  "fst (ExchangeHandler ascii_strings upstream_example (get_exchange ''mc'') []) =
     writeJSON 200 (ExchangeBody \<lparr>Country = ''Monaco'', BaseCurrency = ''EUR'',
                                  ExchangeRates = Map.empty\<rparr>) \<and>
   map fst (snd (ExchangeHandler ascii_strings upstream_example (get_exchange ''mc'') [])) =
     [alphaURL ''mc'', alphaURL ''FRA''] \<and>
   fst (ExchangeHandler ascii_strings upstream_example (get_exchange ''is'') []) =
     writeJSON 200 (ExchangeBody \<lparr>Country = ''Iceland'', BaseCurrency = ''ISK'',
                                  ExchangeRates = Map.empty\<rparr>) \<and>
   map fst (snd (ExchangeHandler ascii_strings upstream_example (get_exchange ''is'') [])) =
     [alphaURL ''is'']"
proof -
  let ?r = "get_exchange ''mc''"
  let ?c = "example_country ''Monaco'' [''FRA''] [''EUR'']"
  let ?mc = "(alphaURL ''mc'', answer_country ''Monaco'' [''FRA''] [''EUR''])"
  let ?fra = "(alphaURL ''FRA'', answer_country ''France'' [''MCO''] [''EUR''])"
  let ?r' = "get_exchange ''is''"
  let ?c' = "example_country ''Iceland'' [] [''ISK'']"
  let ?is = "(alphaURL ''is'', answer_country ''Iceland'' [] [''ISK''])"
  have g: "Method ?r = MethodGet" and v: "validISO2 (exchangeCode ascii_strings ?r)"
    and len: "length (baseOf ascii_strings ?c) = 3"
    and g': "Method ?r' = MethodGet" and v': "validISO2 (exchangeCode ascii_strings ?r')"
    and len': "length (baseOf ascii_strings ?c') = 3"
    by (simp_all add: eval_defs)
  have f: "fetchCountryAlpha upstream_example [] (exchangeCode ascii_strings ?r) =
             ((Some ?c, StatusOK, None), [?mc])"
    and f': "fetchCountryAlpha upstream_example [] (exchangeCode ascii_strings ?r') =
             ((Some ?c', StatusOK, None), [?is])"
    by (simp_all add: eval_defs fetchCountryAlpha_eq)
  have l: "ExchangeHandler_neighbours ascii_strings upstream_example (baseOf ascii_strings ?c)
             (Borders ?c) [] [?mc] = (Inr [], [?mc, ?fra])"
    and l': "ExchangeHandler_neighbours ascii_strings upstream_example (baseOf ascii_strings ?c')
             (Borders ?c') [] [?is] = (Inr [], [?is])"
    by (simp_all add: eval_defs fetchCountryAlpha_eq)
  have c: "Common (Name ?c) = ''Monaco''" "baseOf ascii_strings ?c = ''EUR''"
    "Common (Name ?c') = ''Iceland''" "baseOf ascii_strings ?c' = ''ISK''"
    by (simp_all add: eval_defs)
  from empty_neighbour_set [OF g v f len l]
  have "ExchangeHandler ascii_strings upstream_example ?r [] =
          (writeJSON StatusOK
             (ExchangeBody \<lparr>Country = Common (Name ?c), BaseCurrency = baseOf ascii_strings ?c,
                            ExchangeRates = Map.empty\<rparr>), [?mc, ?fra])"
    by (rule conjunct1)
  moreover from empty_neighbour_set [OF g' v' f' len' l']
  have "ExchangeHandler ascii_strings upstream_example ?r' [] =
          (writeJSON StatusOK
             (ExchangeBody \<lparr>Country = Common (Name ?c'), BaseCurrency = baseOf ascii_strings ?c',
                            ExchangeRates = Map.empty\<rparr>), [?is])"
    by (rule conjunct1)
  ultimately show ?thesis by (simp add: c)
qed

text \<open>
  Claim C7: on a successful exchange response the exchange-rates mapping holds exactly
  the currencies of the neighbour set that the fetched rate set has, each with its
  upstream rate; a currency of the neighbour set that the rate set lacks is left out
  and is no error. Whenever the rate set has been fetched and its result marker is
  empty or \<open>success\<close>, the response is 200 and its mapping is the rate set cut down to
  the neighbour set.
\<close>

theorem exchange_rates_filtered:
  assumes "Method r = MethodGet" and "validISO2 (exchangeCode L r)"
    and "fetchCountryAlpha up tr (exchangeCode L r) = ((Some c, StatusOK, None), tr1)"
    and "length (baseOf L c) = 3"
    and "ExchangeHandler_neighbours L up (baseOf L c) (Borders c) [] tr1 = (Inr ns, tr2)"
    and "ns \<noteq> []"
    and "fetchRates up tr2 (baseOf L c) = ((Some rs, StatusOK, None), tr3)"
    and "Result rs = '''' \<or> Result rs = ''success''"
  shows "ExchangeHandler L up r tr =
           (writeJSON StatusOK
              (ExchangeBody \<lparr>Country = Common (Name c), BaseCurrency = baseOf L c,
                             ExchangeRates = (\<lambda>k. if k \<in> set ns then Rates rs k else None)\<rparr>),
            tr3)"
  using assms(5-8)
  by (auto simp add: ExchangeHandler_fetched [OF assms(1-4)] restrict_map_def)

theorem exchange_rates_filtered_witness:
  "status (fst (ExchangeHandler ascii_strings upstream_example (get_exchange ''no'') [])) = 200 \<and>
   exchangeRateOf (fst (ExchangeHandler ascii_strings upstream_example (get_exchange ''no'') [])) ''SEK'' = Some 10.5 \<and>
   exchangeRateOf (fst (ExchangeHandler ascii_strings upstream_example (get_exchange ''no'') [])) ''EUR'' = Some 11.2 \<and>
   exchangeRateOf (fst (ExchangeHandler ascii_strings upstream_example (get_exchange ''no'') [])) ''RUB'' = None"
proof -
  let ?r = "get_exchange ''no''"
  let ?c = "example_country ''Norway'' [''SWE'', ''FIN'', ''RUS''] [''NOK'']"
  let ?rs = "\<lparr>Result = ''success'', Rates = [''SEK'' \<mapsto> 10.5, ''EUR'' \<mapsto> 11.2 :: real]\<rparr>"
  let ?no = "(alphaURL ''no'', answer_country ''Norway'' [''SWE'', ''FIN'', ''RUS''] [''NOK''])"
  let ?swe = "(alphaURL ''SWE'', answer_country ''Sweden'' [''NOR'', ''FIN''] [''SEK''])"
  let ?fin = "(alphaURL ''FIN'', answer_country ''Finland'' [''NOR'', ''SWE'', ''RUS''] [''EUR''])"
  let ?rus = "(alphaURL ''RUS'', answer_country ''Russia'' [''NOR'', ''FIN''] [''RUB''])"
  let ?nok = "(ratesURL ''NOK'', answer_rates [''SEK'' \<mapsto> 10.5, ''EUR'' \<mapsto> 11.2])"
  have g: "Method ?r = MethodGet" and v: "validISO2 (exchangeCode ascii_strings ?r)"
    and len: "length (baseOf ascii_strings ?c) = 3"
    by (simp_all add: eval_defs)
  have f: "fetchCountryAlpha upstream_example [] (exchangeCode ascii_strings ?r) =
             ((Some ?c, StatusOK, None), [?no])"
    by (simp add: eval_defs fetchCountryAlpha_eq)
  have l: "ExchangeHandler_neighbours ascii_strings upstream_example (baseOf ascii_strings ?c) (Borders ?c) [] [?no] =
             (Inr [''RUB'', ''EUR'', ''SEK''], [?no, ?swe, ?fin, ?rus])"
    by (simp add: eval_defs fetchCountryAlpha_eq)
  have ne: "[''RUB'', ''EUR'', ''SEK''] \<noteq> ([] :: string list)"
    by simp
  have q: "fetchRates upstream_example [?no, ?swe, ?fin, ?rus] (baseOf ascii_strings ?c) =
             ((Some ?rs, StatusOK, None), [?no, ?swe, ?fin, ?rus, ?nok])"
    by (simp add: eval_defs fetchRates_eq)
  have m: "Result ?rs = '''' \<or> Result ?rs = ''success''"
    by simp
  from exchange_rates_filtered [OF g v f len l ne q m]
  show ?thesis by simp
qed

text \<open>
  Claim C8 says that every currency code in the output of the exchange endpoint is
  exactly 3 uppercase letters, and that the base currency never appears in the
  neighbour set, hence never in the exchange-rates mapping. The first half fails: the
  handler upper-cases a key and tests its length, never its characters, so a key of
  digits goes through.
\<close>

theorem currency_codes_counterexample:
  "status (fst (ExchangeHandler ascii_strings upstream_example (get_exchange ''xx'') [])) = 200 \<and>
   baseCurrencyOf (fst (ExchangeHandler ascii_strings upstream_example (get_exchange ''xx'') [])) = Some ''123'' \<and>
   exchangeRateOf (fst (ExchangeHandler ascii_strings upstream_example (get_exchange ''xx'') [])) ''4X6'' = Some 2 \<and>
   \<not> three_uppercase_letters ''123'' \<and> \<not> three_uppercase_letters ''4X6''"
  by (simp add: three_uppercase_letters_def) code_simp

text \<open>
  Claim C8, amended: every currency code in the output of the exchange endpoint (the
  base currency and every key of the exchange-rates mapping) is exactly 3 bytes long and
  upper-cased, that is, a value of \<open>strings.ToUpper\<close>, and the base currency is
  neither in the neighbour set nor a key of the exchange-rates mapping.
\<close>

theorem currency_codes_of_output:
  "(ExchangeHandler_neighbours L up base bs [] tr = (Inr ns, tr') \<longrightarrow>
      base \<notin> set ns \<and> (\<forall>k\<in>set ns. length k = 3 \<and> k \<in> range (ToUpper L))) \<and>
   (status (fst (ExchangeHandler L up r tr0)) = StatusOK \<longrightarrow>
      (\<exists>b. baseCurrencyOf (fst (ExchangeHandler L up r tr0)) = Some b \<and>
           length b = 3 \<and> b \<in> range (ToUpper L) \<and>
           (\<forall>k. exchangeRateOf (fst (ExchangeHandler L up r tr0)) k \<noteq> None \<longrightarrow>
                  length k = 3 \<and> k \<in> range (ToUpper L) \<and> k \<noteq> b)))"
proof (rule conjI; rule impI)
  assume "ExchangeHandler_neighbours L up base bs [] tr = (Inr ns, tr')"
  from neighbours_inv [OF this]
  show "base \<notin> set ns \<and> (\<forall>k\<in>set ns. length k = 3 \<and> k \<in> range (ToUpper L))"
    by auto
next
  let ?H = "ExchangeHandler L up r tr0"
  assume ok: "status (fst ?H) = StatusOK"
  with ExchangeHandler_early [of r L up tr0] obtain c where
    g: "Method r = MethodGet" and v: "validISO2 (exchangeCode L r)" and
    c: "fst (fst (fetchCountryAlpha up tr0 (exchangeCode L r))) = Some c"
    by blast
  then obtain st err tr1 where
    f: "fetchCountryAlpha up tr0 (exchangeCode L r) = ((Some c, st, err), tr1)"
    by (metis prod.collapse)
  have len: "length (baseOf L c) = 3"
    using ok ExchangeHandler_no_currency [OF g v f] by force
  obtain res tr2 where
    run: "ExchangeHandler_neighbours L up (baseOf L c) (Borders c) [] tr1 = (res, tr2)"
    by (metis prod.collapse)
  have "\<exists>ns. res = Inr ns"
  proof (cases res)
    case (Inl resp)
    with run have "status resp = StatusBadGateway" by (auto dest: neighbours_Inl)
    with Inl run ok show ?thesis
      by (simp add: ExchangeHandler_fetched [OF g v f len])
  next
    case (Inr ns)
    then show ?thesis by simp
  qed
  then obtain ns where res: "res = Inr ns" ..
  from neighbours_inv [OF run [unfolded res]]
  have inv: "\<forall>k\<in>set ns. length k = 3 \<and> k \<noteq> baseOf L c \<and> k \<in> range (ToUpper L)"
    by simp
  have b: "baseCurrencyOf (fst ?H) = Some (baseOf L c)"
    using ok run res
    by (auto simp add: ExchangeHandler_fetched [OF g v f len] split: if_splits prod.splits)
  have "\<forall>k. exchangeRateOf (fst ?H) k \<noteq> None \<longrightarrow> k \<in> set ns"
    using ok run res
    by (auto simp add: ExchangeHandler_fetched [OF g v f len] restrict_map_def
        split: if_splits prod.splits)
  with inv have "\<forall>k. exchangeRateOf (fst ?H) k \<noteq> None \<longrightarrow>
      length k = 3 \<and> k \<in> range (ToUpper L) \<and> k \<noteq> baseOf L c"
    by blast
  with b len
  show "\<exists>b. baseCurrencyOf (fst ?H) = Some b \<and> length b = 3 \<and> b \<in> range (ToUpper L) \<and>
           (\<forall>k. exchangeRateOf (fst ?H) k \<noteq> None \<longrightarrow> length k = 3 \<and> k \<in> range (ToUpper L) \<and> k \<noteq> b)"
    by blast
qed

theorem currency_codes_of_output_witness:
  "''CHF'' \<notin> set [''EUR''] \<and>
   baseCurrencyOf (fst (ExchangeHandler ascii_strings upstream_example (get_exchange ''li'') [])) = Some ''CHF'' \<and>
   exchangeRateOf (fst (ExchangeHandler ascii_strings upstream_example (get_exchange ''li'') [])) ''CHF'' = None"
proof -
  let ?r = "get_exchange ''li''"
  let ?H = "ExchangeHandler ascii_strings upstream_example ?r []"
  let ?aut = "(alphaURL ''AUT'', answer_country ''Austria'' [''CHE'', ''LIE''] [''EUR''])"
  let ?che = "(alphaURL ''CHE'', answer_country ''Switzerland'' [''AUT'', ''LIE''] [''CHF''])"
  have l: "ExchangeHandler_neighbours ascii_strings upstream_example ''CHF'' [''AUT'', ''CHE''] [] [] =
             (Inr [''EUR''], [?aut, ?che])"
    by (simp add: eval_defs fetchCountryAlpha_eq)
  have ok: "status (fst ?H) = StatusOK"
    and b: "baseCurrencyOf (fst ?H) = Some ''CHF''"
    by (simp_all add: eval_defs ExchangeHandler_def fetchCountryAlpha_eq fetchRates_eq)
  from currency_codes_of_output
    [of ascii_strings upstream_example "''CHF''" "[''AUT'', ''CHE'']" "[]" "[''EUR'']" "[?aut, ?che]" ?r "[]"] l
  have "''CHF'' \<notin> set [''EUR'']"
    by blast
  moreover
  from currency_codes_of_output
    [of ascii_strings upstream_example "''CHF''" "[''AUT'', ''CHE'']" "[]" "[''EUR'']" "[?aut, ?che]" ?r "[]"] ok
  obtain c where "baseCurrencyOf (fst ?H) = Some c"
    and "\<forall>k. exchangeRateOf (fst ?H) k \<noteq> None \<longrightarrow>
           length k = 3 \<and> k \<in> range (ToUpper ascii_strings) \<and> k \<noteq> c"
    by blast
  with b have "exchangeRateOf (fst ?H) ''CHF'' = None"
    by auto
  ultimately show ?thesis using b by blast
qed

text \<open>
  Claim C9: the status endpoint answers a GET request with 200 exactly when both upstream probes return
  HTTP 200, and 502 in every other case (a status other than 200, or a transport failure,
  which is recorded as 502); either way the body holds both probe codes, the API version
  and the uptime in whole seconds.
\<close>

theorem status_endpoint:
  assumes "Method r = MethodGet"
    and "r1 = up tr (alphaURL ''no'')"
    and "r2 = up (tr @ [(alphaURL ''no'', r1)]) (ratesURL ''NOK'')"
  shows "(status (fst (StatusHandler up uptime r tr)) = StatusOK
            \<longleftrightarrow> statusOf r1 = Some StatusOK \<and> statusOf r2 = Some StatusOK) \<and>
         (status (fst (StatusHandler up uptime r tr)) \<noteq> StatusOK
            \<longrightarrow> status (fst (StatusHandler up uptime r tr)) = StatusBadGateway) \<and>
         payload (fst (StatusHandler up uptime r tr)) =
           StatusBody
             \<lparr>RestCountriesAPI =
                (case r1 of TransportError \<Rightarrow> StatusBadGateway | Response sc b \<Rightarrow> sc),
              CurrenciesAPI =
                (case r2 of TransportError \<Rightarrow> StatusBadGateway | Response sc b \<Rightarrow> sc),
              Version = ''v1'', Uptime = uptime\<rparr>"
  using assms
  by (simp add: StatusHandler_def probeHTTP_def httpClient_Get_def Let_def version_def
      alphaURL_def ratesURL_def split: http_result.splits)

theorem status_endpoint_witness:
  "status (fst (StatusHandler upstream_example 42 get_status [])) = 200 \<and>
   payload (fst (StatusHandler upstream_example 42 get_status [])) =
     StatusBody \<lparr>RestCountriesAPI = 200, CurrenciesAPI = 200, Version = ''v1'', Uptime = 42\<rparr> \<and>
   status (fst (StatusHandler upstream_rates_down 42 get_status [])) = 502 \<and>
   payload (fst (StatusHandler upstream_rates_down 42 get_status [])) =
     StatusBody \<lparr>RestCountriesAPI = 200, CurrenciesAPI = 502, Version = ''v1'', Uptime = 42\<rparr>"
proof -
  let ?no = "answer_country ''Norway'' [''SWE'', ''FIN'', ''RUS''] [''NOK'']"
  let ?nok = "answer_rates [''SEK'' \<mapsto> 10.5, ''EUR'' \<mapsto> 11.2]"
  have g: "Method get_status = MethodGet"
    by (simp add: get_status_def)
  have a: "?no = upstream_example [] (alphaURL ''no'')"
    and b: "?nok = upstream_example ([] @ [(alphaURL ''no'', ?no)]) (ratesURL ''NOK'')"
    and a': "?no = upstream_rates_down [] (alphaURL ''no'')"
    and b': "TransportError = upstream_rates_down ([] @ [(alphaURL ''no'', ?no)]) (ratesURL ''NOK'')"
    by (simp_all add: eval_defs)
  from status_endpoint [of get_status ?no upstream_example "[]" ?nok 42, OF g a b]
    status_endpoint [of get_status ?no upstream_rates_down "[]" TransportError 42, OF g a' b']
  show ?thesis by (simp add: answer_country_def answer_rates_def)
qed

text \<open>
  Claim C10: when the country provider answers with status 200 and a body that is the
  empty JSON array, the country client reports a shape error, and the info and the
  exchange endpoint answer 502, not 404.
\<close>

theorem empty_array_is_shape_error:
  "(up tr (alphaURL code) = Response StatusOK (JSONArray (Some []))
      \<longrightarrow> fst (fetchCountryAlpha up tr code) = (None, 0, Some UnexpectedShape)) \<and>
   (Method r = MethodGet \<and> validISO2 (infoCode L r) \<and>
      up tr (alphaURL (infoCode L r)) = Response StatusOK (JSONArray (Some []))
      \<longrightarrow> status (fst (InfoHandler L up r tr)) = StatusBadGateway) \<and>
   (Method r' = MethodGet \<and> validISO2 (exchangeCode L r') \<and>
      up tr (alphaURL (exchangeCode L r')) = Response StatusOK (JSONArray (Some []))
      \<longrightarrow> status (fst (ExchangeHandler L up r' tr)) = StatusBadGateway)"
  by (simp add: InfoHandler_def ExchangeHandler_def fetchCountryAlpha_eq Let_def)

theorem empty_array_is_shape_error_witness:
  "fst (fetchCountryAlpha upstream_empty_array [] ''no'') = (None, 0, Some UnexpectedShape) \<and>
   status (fst (InfoHandler ascii_strings upstream_empty_array (get_info ''no'') [])) = 502 \<and>
   status (fst (ExchangeHandler ascii_strings upstream_empty_array (get_exchange ''no'') [])) = 502"
proof -
  let ?ri = "get_info ''no''"
  let ?re = "get_exchange ''no''"
  have c: "upstream_empty_array [] (alphaURL ''no'') = Response StatusOK (JSONArray (Some []))"
    by (simp add: upstream_empty_array_def)
  have i: "Method ?ri = MethodGet \<and> validISO2 (infoCode ascii_strings ?ri) \<and>
           upstream_empty_array [] (alphaURL (infoCode ascii_strings ?ri)) = Response StatusOK (JSONArray (Some []))"
    by (simp add: eval_defs)
  have e: "Method ?re = MethodGet \<and> validISO2 (exchangeCode ascii_strings ?re) \<and>
           upstream_empty_array [] (alphaURL (exchangeCode ascii_strings ?re)) = Response StatusOK (JSONArray (Some []))"
    by (simp add: eval_defs)
  from empty_array_is_shape_error [of upstream_empty_array "[]" "''no''" ?ri ascii_strings ?re] c i e
  show ?thesis by blast
qed

end
